theory Spec2Isabelle
  imports Main "HOL-Library.AList"
begin

section \<open>Quick-Show: event handlers and the favourites controller\<close>

text \<open>
  A shallow embedding of \<^verbatim>\<open>server/inngest/index.js\<close> and
  \<^verbatim>\<open>server/controllers/User.controller.js\<close>. The database, the identity
  provider and the mail transport are external; each is a value passed to the handler
  and, where the handler writes, returned updated. An exception of the JavaScript is a
  value of type \<open>error\<close>.
\<close>

subsection \<open>Errors and outcomes\<close>

text \<open>
  \<open>TypeError\<close>: a property read on \<^verbatim>\<open>null\<close> or \<^verbatim>\<open>undefined\<close>.
  \<open>ClerkNotFound\<close>: the identity provider knows no user of the given id.
\<close>

datatype error = TypeError | ClerkNotFound

datatype 'a outcome = Returned 'a | Threw error

subsection \<open>Documents and collections\<close>

type_synonym user_id = string
type_synonym movie_id = string
type_synonym show_id = string
type_synonym booking_id = string
type_synonym seat = string
type_synonym time = int

text \<open>
  Modelled from the spec: the model files (\<^verbatim>\<open>models/*.model.js\<close>) are not part of
  the sources, so the documents carry the fields that the handlers read and that
  section 3 of the specification lists. The \<^verbatim>\<open>_id\<close> of a document is its key in
  the collection. Times are milliseconds since the epoch.
\<close>

record user =
  email :: string
  name :: string
  image_url :: string

record movie =
  title :: string

text \<open>
  \<open>occupiedSeats\<close> is a JavaScript object from seat label to user id: an association
  list in the object's enumeration order. Every show has one (section 3 of the
  specification), and an object, even an empty one, is truthy. \<open>showTime\<close> is the
  start time under the name by which the reminder sweep queries and reads it.
\<close>

record show_doc =
  movie :: movie_id
  showTime :: time
  occupiedSeats :: "(seat \<times> user_id) list"

record booking =
  user_ref :: user_id
  show_ref :: show_id
  amount :: int
  bookedSeats :: "seat list"
  isPaid :: bool

text \<open>
  A collection: the documents in natural order, each with its \<^verbatim>\<open>_id\<close>. The
  fields of the database are named after the models.
\<close>

type_synonym 'd collection = "(string \<times> 'd) list"

record db =
  User :: "user collection"
  Movie :: "movie collection"
  Show :: "show_doc collection"
  Booking :: "booking collection"

text \<open>\<^verbatim>\<open>Model.findById(id)\<close>: the document, or \<^verbatim>\<open>null\<close>.\<close>

definition findById :: "'d collection \<Rightarrow> string \<Rightarrow> 'd option" where
  "findById c i = map_of c i"

text \<open>\<^verbatim>\<open>Model.findByIdAndDelete(id)\<close>: nothing happens when no document has the id.\<close>

definition findByIdAndDelete :: "string \<Rightarrow> 'd collection \<Rightarrow> 'd collection" where
  "findByIdAndDelete i c = AList.delete i c"

text \<open>\<^verbatim>\<open>doc.save()\<close> of a document that was loaded from the collection.\<close>

definition save :: "string \<Rightarrow> 'd \<Rightarrow> 'd collection \<Rightarrow> 'd collection" where
  "save i d c = AList.update i d c"

text \<open>
  \<^verbatim>\<open>Model.findByIdAndUpdate(id, fields)\<close> without the \<^verbatim>\<open>upsert\<close> option: the
  fields are set on the document of that id; when there is none, the call resolves to
  \<^verbatim>\<open>null\<close> and writes nothing.
\<close>

definition findByIdAndUpdate :: "string \<Rightarrow> ('d \<Rightarrow> 'd) \<Rightarrow> 'd collection \<Rightarrow> 'd collection" where
  "findByIdAndUpdate i f c =
     (case map_of c i of None \<Rightarrow> c | Some d \<Rightarrow> AList.update i (f d) c)"

text \<open>The writes a handler issues, in order, and their effect on the database.\<close>

datatype db_write =
    Show_save show_id show_doc
  | Booking_findByIdAndDelete booking_id
  | User_findByIdAndUpdate user_id user

fun apply_write :: "db \<Rightarrow> db_write \<Rightarrow> db" where
  "apply_write d (Show_save i s) = d\<lparr>Show := save i s (Show d)\<rparr>"
| "apply_write d (Booking_findByIdAndDelete i) =
     d\<lparr>Booking := findByIdAndDelete i (Booking d)\<rparr>"
| "apply_write d (User_findByIdAndUpdate i u) =
     d\<lparr>User :=
         findByIdAndUpdate i
           (\<lambda>doc. doc\<lparr>email := email u, name := name u, image_url := image_url u\<rparr>) (User d)\<rparr>"

definition apply_writes :: "db \<Rightarrow> db_write list \<Rightarrow> db" where
  "apply_writes d ws = foldl apply_write d ws"

subsection \<open>The booking-expiry workflow: step \<^verbatim>\<open>check-payment-status\<close>\<close>

text \<open>\<^verbatim>\<open>delete obj[seat]\<close>: removes the property, and does nothing when it is absent.\<close>

definition js_delete :: "seat \<Rightarrow> (seat \<times> user_id) list \<Rightarrow> (seat \<times> user_id) list" where
  "js_delete s obj = AList.delete s obj"

text \<open>
  \<^verbatim>\<open>booking.bookedSeats.forEach((seat) => { delete show.occupiedSeats[seat]; })\<close>
\<close>

definition release_seats :: "seat list \<Rightarrow> (seat \<times> user_id) list \<Rightarrow> (seat \<times> user_id) list" where
  "release_seats seats obj = fold js_delete seats obj"

text \<open>
  The handler \<^verbatim>\<open>releaseSeatsAndDeleteBooking\<close> sleeps until ten minutes after the
  event and then runs one step, whose body this is: its outcome and the writes it
  issues. \<^verbatim>\<open>booking.isPaid\<close> on a missing booking, and
  \<^verbatim>\<open>show.occupiedSeats\<close> or \<^verbatim>\<open>show.markModified\<close> on a missing show, throw
  a TypeError; both happen before the first write. The booking that was loaded by
  \<open>bookingId\<close> has that \<^verbatim>\<open>_id\<close>.
\<close>

definition check_payment_status :: "db \<Rightarrow> booking_id \<Rightarrow> unit outcome \<times> db_write list" where
  "check_payment_status d bookingId =
     (case findById (Booking d) bookingId of
        None \<Rightarrow> (Threw TypeError, [])
      | Some booking \<Rightarrow>
          if \<not> isPaid booking then
            (case findById (Show d) (show_ref booking) of
               None \<Rightarrow> (Threw TypeError, [])
             | Some sh \<Rightarrow>
                 (Returned (),
                  [Show_save (show_ref booking)
                     (sh\<lparr>occupiedSeats := release_seats (bookedSeats booking) (occupiedSeats sh)\<rparr>),
                   Booking_findByIdAndDelete bookingId]))
          else (Returned (), []))"

text \<open>The database after the step has run.\<close>

definition run_check_payment_status :: "db \<Rightarrow> booking_id \<Rightarrow> db" where
  "run_check_payment_status d bookingId =
     apply_writes d (snd (check_payment_status d bookingId))"

text \<open>
  The database after a run that was cut off when only the first \<open>k\<close> writes of the
  step had reached the database.
\<close>

definition interrupted_check_payment_status :: "nat \<Rightarrow> db \<Rightarrow> booking_id \<Rightarrow> db" where
  "interrupted_check_payment_status k d bookingId =
     apply_writes d (take k (snd (check_payment_status d bookingId)))"

subsection \<open>User synchronisation: \<^verbatim>\<open>syncUserUpdation\<close>\<close>

text \<open>The payload of an identity-lifecycle event (\<^verbatim>\<open>event.data\<close>).\<close>

record email_address_json =
  email_address :: string

record clerk_user_event =
  clerk_id :: user_id
  first_name :: string
  last_name :: string
  email_addresses :: "email_address_json list"
  ev_image_url :: string

text \<open>
  The handler builds \<^verbatim>\<open>userData\<close> and calls \<^verbatim>\<open>User.findByIdAndUpdate(id, userData)\<close>.
  \<^verbatim>\<open>email_addresses[0].email_address\<close> throws a TypeError when the list is empty,
  before the database is reached. The handler does not read the database.
\<close>

definition syncUserUpdation :: "clerk_user_event \<Rightarrow> unit outcome \<times> db_write list" where
  "syncUserUpdation ev =
     (case email_addresses ev of
        [] \<Rightarrow> (Threw TypeError, [])
      | e # _ \<Rightarrow>
          (Returned (),
           [User_findByIdAndUpdate (clerk_id ev)
              \<lparr>email = email_address e,
               name = first_name ev @ '' '' @ last_name ev,
               image_url = ev_image_url ev\<rparr>]))"

definition run_syncUserUpdation :: "db \<Rightarrow> clerk_user_event \<Rightarrow> db" where
  "run_syncUserUpdation d ev = apply_writes d (snd (syncUserUpdation ev))"

subsection \<open>The reminder sweep: \<^verbatim>\<open>sendShowReminders\<close>\<close>

record reminder_task =
  userEmail :: string
  userName :: string
  movieTitle :: string
  task_showTime :: time

record mail =
  mail_to :: string
  subject :: string
  body :: string

text \<open>
  The outcome of a promise under \<^verbatim>\<open>Promise.allSettled\<close>
  (\<^verbatim>\<open>status: "fulfilled"\<close> or \<^verbatim>\<open>"rejected"\<close>).
\<close>

datatype settled = Fulfilled | Rejected

text \<open>
  The mail transport \<^verbatim>\<open>sendEmail\<close> is external: whether the \<open>i\<close>-th send of a
  batch succeeds is not decided by this code. It is a parameter that gives the outcome
  of the send at position \<open>i\<close>.
\<close>

type_synonym transport = "nat \<Rightarrow> mail \<Rightarrow> settled"

text \<open>
  The body of the reminder is a template literal over the task whose text depends
  on the locale (\<^verbatim>\<open>toLocaleString\<close>) and on the current year; it is a parameter.
\<close>

type_synonym template = "reminder_task \<Rightarrow> string"

definition in8Hours :: "time \<Rightarrow> time" where
  "in8Hours now = now + 8 * 60 * 60 * 1000"

definition windowStart :: "time \<Rightarrow> time" where
  "windowStart now = in8Hours now - 10 * 60 * 1000"

text \<open>
  \<^verbatim>\<open>Show.find({showTime: {$gte: windowStart, $lte: in8Hours}}).populate('movie')\<close>:
  the shows of the window, each with its movie document, or \<^verbatim>\<open>null\<close> when the
  referenced movie does not exist.
\<close>

definition Show_find_window :: "db \<Rightarrow> time \<Rightarrow> (show_doc \<times> movie option) list" where
  "Show_find_window d now =
     map (\<lambda>(i, s). (s, findById (Movie d) (movie s)))
       (filter (\<lambda>(i, s). windowStart now \<le> showTime s \<and> showTime s \<le> in8Hours now) (Show d))"

text \<open>\<^verbatim>\<open>Object.values(obj)\<close>: the property values in enumeration order.\<close>

definition Object_values :: "(seat \<times> user_id) list \<Rightarrow> user_id list" where
  "Object_values obj = map snd obj"

text \<open>
  \<^verbatim>\<open>[...new Set(xs)]\<close>: the elements of \<open>xs\<close> in order of first occurrence.
  \<open>Set_add_all seen xs\<close> adds the elements of \<open>xs\<close> to the set \<open>seen\<close> one by one.
\<close>

fun Set_add_all :: "'a list \<Rightarrow> 'a list \<Rightarrow> 'a list" where
  "Set_add_all seen [] = seen"
| "Set_add_all seen (x # xs) = Set_add_all (if x \<in> set seen then seen else seen @ [x]) xs"

definition new_Set :: "'a list \<Rightarrow> 'a list" where
  "new_Set xs = Set_add_all [] xs"

text \<open>\<^verbatim>\<open>User.find({_id: {$in: userIds}}).select("name email")\<close>\<close>

definition User_find_in :: "user_id list \<Rightarrow> user collection \<Rightarrow> (user_id \<times> user) list" where
  "User_find_in userIds us = filter (\<lambda>(i, u). i \<in> set userIds) us"

text \<open>
  The loop \<^verbatim>\<open>for(const show of shows)\<close> of the step \<^verbatim>\<open>prepare-reminder-tasks\<close>,
  with the array \<open>tasks\<close> it pushes to. The guard \<^verbatim>\<open>!show.movie || !show.occupiedSeats\<close>
  skips a show whose movie is \<^verbatim>\<open>null\<close>; its second disjunct is false of every
  object.
\<close>

fun prepare_loop ::
  "user collection \<Rightarrow> (show_doc \<times> movie option) list \<Rightarrow> reminder_task list \<Rightarrow> reminder_task list"
where
  "prepare_loop us [] tasks = tasks"
| "prepare_loop us ((sh, None) # rest) tasks = prepare_loop us rest tasks"
| "prepare_loop us ((sh, Some mv) # rest) tasks =
     (let userIds = new_Set (Object_values (occupiedSeats sh)) in
      if length userIds = 0 then prepare_loop us rest tasks
      else
        prepare_loop us rest
          (tasks @
           map (\<lambda>(i, u).
                  \<lparr>userEmail = email u, userName = name u,
                   movieTitle = title mv, task_showTime = showTime sh\<rparr>)
             (User_find_in userIds us)))"

definition prepare_reminder_tasks :: "db \<Rightarrow> time \<Rightarrow> reminder_task list" where
  "prepare_reminder_tasks d now = prepare_loop (User d) (Show_find_window d now) []"

text \<open>The argument of \<^verbatim>\<open>sendEmail\<close> for a task.\<close>

definition reminder_mail :: "template \<Rightarrow> reminder_task \<Rightarrow> mail" where
  "reminder_mail tpl task =
     \<lparr>mail_to = userEmail task,
      subject = ''Reminder: Your movie '' @ [CHR 0x22] @ movieTitle task @ [CHR 0x22] @ '' starts soon!'',
      body = tpl task\<rparr>"

text \<open>
  The step \<^verbatim>\<open>send-all-reminders\<close>: \<^verbatim>\<open>reminderTasks.map\<close> calls
  \<^verbatim>\<open>sendEmail\<close> once for each task, in order, and \<^verbatim>\<open>Promise.allSettled\<close> waits for
  all of them. The result is the list of mails handed to the transport and the list of
  the outcomes.
\<close>

definition send_all_reminders ::
  "transport \<Rightarrow> template \<Rightarrow> reminder_task list \<Rightarrow> mail list \<times> settled list"
where
  "send_all_reminders sendEmail tpl reminderTasks =
     (let mails = map (reminder_mail tpl) reminderTasks
      in (mails, map (\<lambda>(i, m). sendEmail i m) (enumerate 0 mails)))"

text \<open>A number as a template literal prints it: its decimal digits.\<close>

definition digit_char :: "nat \<Rightarrow> char" where
  "digit_char k = char_of (48 + k)"

fun decimal :: "nat \<Rightarrow> string" where
  "decimal n = (if n < 10 then [digit_char n] else decimal (n div 10) @ [digit_char (n mod 10)])"

declare decimal.simps [simp del]

text \<open>
  The object the function returns. The early return for an empty task list is
  \<^verbatim>\<open>{sent: 0, message: ...}\<close>, without the property \<^verbatim>\<open>failed\<close>.
\<close>

record summary =
  sent :: nat
  failed :: "nat option"
  message :: string

text \<open>
  The handler, for the time \<open>now\<close> of the invocation: the summary it returns and the
  mails it handed to the transport.
\<close>

definition sendShowReminders :: "db \<Rightarrow> time \<Rightarrow> transport \<Rightarrow> template \<Rightarrow> summary \<times> mail list" where
  "sendShowReminders d now sendEmail tpl =
     (let reminderTasks = prepare_reminder_tasks d now in
      if length reminderTasks = 0 then
        (\<lparr>sent = 0, failed = None, message = ''No reminders to send''\<rparr>, [])
      else
        (let (mails, results) = send_all_reminders sendEmail tpl reminderTasks;
             sent = length (filter (\<lambda>r. r = Fulfilled) results);
             failed = length results - sent
         in (\<lparr>sent = sent, failed = Some failed,
              message = ''Sent '' @ decimal sent @ '' reminders, '' @
                        decimal failed @ '' failed.''\<rparr>,
             mails)))"

subsection \<open>The favourites controller: \<^verbatim>\<open>updateFavourite\<close>\<close>

text \<open>
  The private metadata the identity provider keeps for a user. The property
  \<^verbatim>\<open>favorites\<close> is absent until the first toggle.
\<close>

record private_metadata =
  favorites :: "movie_id list option"

type_synonym clerk = "user_id \<rightharpoonup> private_metadata"

text \<open>The message of a response: a literal, or \<^verbatim>\<open>error.message\<close> of the caught error.\<close>

datatype res_message = Literal string | Error_message error

record response =
  success :: bool
  res_message :: res_message

text \<open>
  \<^verbatim>\<open>clerkClient.users.getUser\<close> throws when the provider has no such user; the
  \<^verbatim>\<open>catch\<close> turns that into a response. \<^verbatim>\<open>!favorites\<close> holds of a missing
  property, not of an empty array. \<^verbatim>\<open>updateUserMetadata\<close> stores the list.
\<close>

definition updateFavourite :: "clerk \<Rightarrow> user_id \<Rightarrow> movie_id \<Rightarrow> response \<times> clerk" where
  "updateFavourite c userId movieId =
     (case c userId of
        None \<Rightarrow> (\<lparr>success = False, res_message = Error_message ClerkNotFound\<rparr>, c)
      | Some md \<Rightarrow>
          (let favs = (case favorites md of None \<Rightarrow> [] | Some fs \<Rightarrow> fs);
               favs' = (if movieId \<notin> set favs then favs @ [movieId]
                        else filter (\<lambda>item. item \<noteq> movieId) favs)
           in (\<lparr>success = True, res_message = Literal ''Favourite movies updated successfully''\<rparr>,
               c(userId \<mapsto> md\<lparr>favorites := Some favs'\<rparr>))))"

text \<open>The list the provider holds for a user; \<open>[]\<close> stands for no list.\<close>

definition stored_favorites :: "clerk \<Rightarrow> user_id \<Rightarrow> movie_id list" where
  "stored_favorites c userId =
     (case c userId of None \<Rightarrow> [] | Some md \<Rightarrow> (case favorites md of None \<Rightarrow> [] | Some fs \<Rightarrow> fs))"

subsection \<open>The tasks of one show\<close>

text \<open>
  What one populated show contributes to the task list: nothing when its movie is
  \<^verbatim>\<open>null\<close>, otherwise one task for each user document whose \<^verbatim>\<open>_id\<close> holds a
  seat of the show. The loop above is compared with it below.
\<close>

definition show_tasks :: "user collection \<Rightarrow> show_doc \<times> movie option \<Rightarrow> reminder_task list" where
  "show_tasks us p =
     (case snd p of
        None \<Rightarrow> []
      | Some mv \<Rightarrow>
          map (\<lambda>(i, u). \<lparr>userEmail = email u, userName = name u,
                          movieTitle = title mv, task_showTime = showTime (fst p)\<rparr>)
            (filter (\<lambda>(i, u). i \<in> snd ` set (occupiedSeats (fst p))) us))"

subsection \<open>Example values\<close>

text \<open>
  A database with two users, one movie, one show at 08:00:00.000 of day one, and two
  bookings for it, the first unpaid and the second paid. Seat \<open>C1\<close> is held by an
  identity that has no user document.
\<close>

definition db_example :: db where
  "db_example =
     \<lparr>User = [(''u1'', \<lparr>email = ''ann@x.io'', name = ''Ann Lee'', image_url = ''a.png''\<rparr>),
              (''u2'', \<lparr>email = ''bob@x.io'', name = ''Bob Roy'', image_url = ''b.png''\<rparr>)],
      Movie = [(''m1'', \<lparr>title = ''Up''\<rparr>)],
      Show = [(''s1'', \<lparr>movie = ''m1'', showTime = 28800000,
                        occupiedSeats = [(''A1'', ''u1''), (''A2'', ''u1''), (''B1'', ''u2''), (''C1'', ''u9'')]\<rparr>)],
      Booking = [(''b1'', \<lparr>user_ref = ''u1'', show_ref = ''s1'', amount = 300,
                           bookedSeats = [''A1'', ''A2''], isPaid = False\<rparr>),
                 (''b2'', \<lparr>user_ref = ''u2'', show_ref = ''s1'', amount = 150,
                           bookedSeats = [''B1''], isPaid = True\<rparr>)]\<rparr>"

text \<open>A transport whose send at position 1 is rejected, and a template.\<close>

definition second_send_fails :: transport where
  "second_send_fails i m = (if i = 1 then Rejected else Fulfilled)"

definition name_only :: template where
  "name_only task = userName task"

text \<open>Provider metadata: a user with two favourites, and one who never toggled.\<close>

definition clerk_example :: clerk where
  "clerk_example =
     [''u1'' \<mapsto> \<lparr>favorites = Some [''m1'', ''m2'']\<rparr>,
      ''u2'' \<mapsto> \<lparr>favorites = None\<rparr>]"

text \<open>Two \<^verbatim>\<open>clerk/user.updated\<close> payloads for an id that has no user document.\<close>

definition event_no_email :: clerk_user_event where
  "event_no_email =
     \<lparr>clerk_id = ''u9'', first_name = ''Cy'', last_name = ''Doe'',
      email_addresses = [], ev_image_url = ''c.png''\<rparr>"

definition event_with_email :: clerk_user_event where
  "event_with_email =
     \<lparr>clerk_id = ''u9'', first_name = ''Cy'', last_name = ''Doe'',
      email_addresses = [\<lparr>email_address = ''cy@x.io''\<rparr>], ev_image_url = ''c.png''\<rparr>"

section \<open>Properties\<close>

subsection \<open>Releasing seats\<close>

lemma release_seats_filter:
  "release_seats seats obj = filter (\<lambda>(k, v). k \<notin> set seats) obj"
  unfolding release_seats_def
proof (induction seats arbitrary: obj)
  case Nil
  show ?case by simp
next
  case (Cons s seats)
  have "filter (\<lambda>(k, v). k \<notin> set seats) (js_delete s obj) = filter (\<lambda>(k, v). k \<notin> set (s # seats)) obj"
    by (induction obj) (auto simp: js_delete_def AList.delete_eq)
  with Cons show ?case by simp
qed

lemma map_of_release_seats:
  "map_of (release_seats seats obj) s = (if s \<in> set seats then None else map_of obj s)"
  unfolding release_seats_filter by (induction obj) auto

lemma release_seats_idem:
  "release_seats seats (release_seats seats obj) = release_seats seats obj"
  by (simp add: release_seats_filter)

subsection \<open>The step \<^verbatim>\<open>check-payment-status\<close>\<close>

lemma check_payment_status_no_booking:
  "findById (Booking d) bookingId = None \<Longrightarrow> check_payment_status d bookingId = (Threw TypeError, [])"
  by (simp add: check_payment_status_def)

lemma check_payment_status_writes_le:
  "length (snd (check_payment_status d bookingId)) \<le> 2"
  by (simp add: check_payment_status_def split: option.splits)

lemma rerun_after_interruption:
  "run_check_payment_status (interrupted_check_payment_status k d bookingId) bookingId =
     run_check_payment_status d bookingId"
proof (cases "findById (Booking d) bookingId")
  case None
  then show ?thesis
    by (simp add: check_payment_status_def run_check_payment_status_def interrupted_check_payment_status_def apply_writes_def)
next
  case (Some b)
  show ?thesis
  proof (cases "isPaid b")
    case True
    with Some show ?thesis
    by (simp add: check_payment_status_def run_check_payment_status_def interrupted_check_payment_status_def apply_writes_def)
  next
    case False
    show ?thesis
    proof (cases "findById (Show d) (show_ref b)")
      case None
      with Some False show ?thesis
        by (simp add: check_payment_status_def run_check_payment_status_def interrupted_check_payment_status_def apply_writes_def)
    next
      case (Some sh)
      define sh' where "sh' = sh\<lparr>occupiedSeats := release_seats (bookedSeats b) (occupiedSeats sh)\<rparr>"
      have ws: "check_payment_status d bookingId = (Returned (), [Show_save (show_ref b) sh', Booking_findByIdAndDelete bookingId])"
        using Some False \<open>findById (Booking d) bookingId = Some b\<close>
        by (simp add: check_payment_status_def sh'_def)
      consider "k = 0" | "k = 1" | "k \<ge> 2" by linarith
      then show ?thesis
      proof cases
        case 1
        then show ?thesis by (simp add: run_check_payment_status_def interrupted_check_payment_status_def apply_writes_def)
      next
        case 2
        let ?d1 = "d\<lparr>Show := save (show_ref b) sh' (Show d)\<rparr>"
        have d1: "interrupted_check_payment_status k d bookingId = ?d1"
          using 2 ws by (simp add: interrupted_check_payment_status_def apply_writes_def)
        have f: "findById (Show ?d1) (show_ref b) = Some sh'"
          by (simp add: findById_def save_def AList.update_conv')
        have i: "sh'\<lparr>occupiedSeats := release_seats (bookedSeats b) (occupiedSeats sh')\<rparr> = sh'"
          by (simp add: sh'_def release_seats_idem)
        have ws1: "check_payment_status ?d1 bookingId = (Returned (), [Show_save (show_ref b) sh', Booking_findByIdAndDelete bookingId])"
          using f i False \<open>findById (Booking d) bookingId = Some b\<close>
          by (simp add: check_payment_status_def)
        have u: "save (show_ref b) sh' (save (show_ref b) sh' (Show d)) = save (show_ref b) sh' (Show d)"
          using f by (simp add: save_def findById_def AList.update_triv)
        show ?thesis unfolding d1 run_check_payment_status_def ws1 ws
          by (simp add: apply_writes_def u)
      next
        case 3
        let ?d2 = "d\<lparr>Show := save (show_ref b) sh' (Show d), Booking := findByIdAndDelete bookingId (Booking d)\<rparr>"
        have d2: "interrupted_check_payment_status k d bookingId = ?d2"
          using 3 ws by (simp add: interrupted_check_payment_status_def apply_writes_def)
        have "findById (Booking ?d2) bookingId = None"
          by (simp add: findById_def findByIdAndDelete_def AList.delete_conv')
        then have "run_check_payment_status ?d2 bookingId = ?d2"
          by (simp add: check_payment_status_no_booking run_check_payment_status_def apply_writes_def)
        moreover have "run_check_payment_status d bookingId = ?d2"
          using ws by (simp add: run_check_payment_status_def apply_writes_def)
        ultimately show ?thesis using d2 by simp
      qed
    qed
  qed
qed

text \<open>
  Claim C1, as amended. When \<open>bookingId\<close> refers to no booking,
  \<^verbatim>\<open>Booking.findById\<close> resolves to \<^verbatim>\<open>null\<close> and \<^verbatim>\<open>booking.isPaid\<close> throws a
  TypeError: the step does not complete successfully. It throws before any write, so
  every show and every booking (the whole database) is unchanged.
\<close>

theorem check_payment_missing_booking_throws:
  assumes "findById (Booking d) bookingId = None"
  shows "check_payment_status d bookingId = (Threw TypeError, []) \<and>
         run_check_payment_status d bookingId = d"
  using assms
  by (simp add: check_payment_status_no_booking run_check_payment_status_def apply_writes_def)

theorem check_payment_missing_booking_throws_witness:
  "findById (Booking db_example) ''b3'' = None \<and>
   check_payment_status db_example ''b3'' = (Threw TypeError, []) \<and>
   run_check_payment_status db_example ''b3'' = db_example"
proof -
  have h: "findById (Booking db_example) ''b3'' = None"
    by (simp add: db_example_def findById_def)
  show ?thesis
    using h check_payment_missing_booking_throws [OF h] by simp
qed

text \<open>
  Claim C1 as stated (a missing booking is a no-op that completes successfully) fails
  on the example database for the booking id \<open>b3\<close>, which no booking has.
\<close>

theorem check_payment_missing_booking_not_success:
  "\<not> (findById (Booking db_example) ''b3'' = None \<longrightarrow>
        fst (check_payment_status db_example ''b3'') = Returned () \<and>
        run_check_payment_status db_example ''b3'' = db_example)"
  by (simp add: db_example_def findById_def check_payment_status_def)

text \<open>
  Claim C2. For every database and every \<open>bookingId\<close>, running the step twice in
  sequence leaves the same database as running it once. The same holds after a first
  run that was cut off when only its first \<open>k\<close> writes had reached the database, for
  every \<open>k\<close>; \<open>k = 1\<close> is the run in which the show was saved and the booking not
  yet deleted: the seats are not released twice. (The statement is about the final
  state of the database; the outcome of a second run is the subject of claim C1.)
\<close>

theorem check_payment_idempotent:
  "run_check_payment_status (run_check_payment_status d bookingId) bookingId =
     run_check_payment_status d bookingId \<and>
   run_check_payment_status (interrupted_check_payment_status k d bookingId) bookingId =
     run_check_payment_status d bookingId"
proof -
  have "interrupted_check_payment_status 2 d bookingId = run_check_payment_status d bookingId"
    using check_payment_status_writes_le [of d bookingId]
    by (simp add: interrupted_check_payment_status_def run_check_payment_status_def)
  then show ?thesis
    using rerun_after_interruption [of 2 d bookingId] rerun_after_interruption [of k d bookingId]
    by simp
qed

theorem check_payment_idempotent_witness:
  "findById (Booking (interrupted_check_payment_status 1 db_example ''b1'')) ''b1'' =
     Some \<lparr>user_ref = ''u1'', show_ref = ''s1'', amount = 300,
           bookedSeats = [''A1'', ''A2''], isPaid = False\<rparr> \<and>
   findById (Show (interrupted_check_payment_status 1 db_example ''b1'')) ''s1'' =
     Some \<lparr>movie = ''m1'', showTime = 28800000,
           occupiedSeats = [(''B1'', ''u2''), (''C1'', ''u9'')]\<rparr> \<and>
   run_check_payment_status (interrupted_check_payment_status 1 db_example ''b1'') ''b1'' =
     run_check_payment_status db_example ''b1'' \<and>
   run_check_payment_status (run_check_payment_status db_example ''b1'') ''b1'' =
     run_check_payment_status db_example ''b1''"
proof -
  have "interrupted_check_payment_status 1 db_example ''b1'' =
      db_example\<lparr>Show := [(''s1'', \<lparr>movie = ''m1'', showTime = 28800000,
           occupiedSeats = [(''B1'', ''u2''), (''C1'', ''u9'')]\<rparr>)]\<rparr>"
    by (simp add: interrupted_check_payment_status_def check_payment_status_def db_example_def
        findById_def apply_writes_def save_def release_seats_def js_delete_def AList.delete_eq)
  then show ?thesis
    using check_payment_idempotent [of db_example "''b1''" 1]
    by (simp add: db_example_def findById_def)
qed

text \<open>
  Claim C3. For a booking with \<open>isPaid = False\<close> whose show exists, the step returns
  normally; it saves the show with exactly the entries of the booked seats removed from
  \<open>occupiedSeats\<close> (an entry for any other seat is kept as it was, the other fields of
  the show too) and deletes the booking. No other show, booking, user or movie changes.
\<close>

theorem check_payment_unpaid_releases_seats:
  assumes "findById (Booking d) bookingId = Some b"
    and "\<not> isPaid b"
    and "findById (Show d) (show_ref b) = Some sh"
  shows
    "fst (check_payment_status d bookingId) = Returned () \<and>
     snd (check_payment_status d bookingId) =
       [Show_save (show_ref b)
          (sh\<lparr>occupiedSeats := filter (\<lambda>(s, u). s \<notin> set (bookedSeats b)) (occupiedSeats sh)\<rparr>),
        Booking_findByIdAndDelete bookingId] \<and>
     findById (Show (run_check_payment_status d bookingId)) (show_ref b) =
       Some (sh\<lparr>occupiedSeats := filter (\<lambda>(s, u). s \<notin> set (bookedSeats b)) (occupiedSeats sh)\<rparr>) \<and>
     (\<forall>s. map_of (filter (\<lambda>(s, u). s \<notin> set (bookedSeats b)) (occupiedSeats sh)) s =
            (if s \<in> set (bookedSeats b) then None else map_of (occupiedSeats sh) s)) \<and>
     findById (Booking (run_check_payment_status d bookingId)) bookingId = None \<and>
     (\<forall>i. i \<noteq> show_ref b \<longrightarrow>
        findById (Show (run_check_payment_status d bookingId)) i = findById (Show d) i) \<and>
     (\<forall>i. i \<noteq> bookingId \<longrightarrow>
        findById (Booking (run_check_payment_status d bookingId)) i = findById (Booking d) i) \<and>
     User (run_check_payment_status d bookingId) = User d \<and>
     Movie (run_check_payment_status d bookingId) = Movie d"
proof -
  let ?sh' = "sh\<lparr>occupiedSeats := filter (\<lambda>(s, u). s \<notin> set (bookedSeats b)) (occupiedSeats sh)\<rparr>"
  have ws: "check_payment_status d bookingId =
      (Returned (), [Show_save (show_ref b) ?sh', Booking_findByIdAndDelete bookingId])"
    using assms by (simp add: check_payment_status_def release_seats_filter)
  have run: "run_check_payment_status d bookingId =
      d\<lparr>Show := save (show_ref b) ?sh' (Show d),
        Booking := findByIdAndDelete bookingId (Booking d)\<rparr>"
    by (simp add: run_check_payment_status_def ws apply_writes_def)
  have m: "\<forall>s. map_of (filter (\<lambda>(s, u). s \<notin> set (bookedSeats b)) (occupiedSeats sh)) s =
            (if s \<in> set (bookedSeats b) then None else map_of (occupiedSeats sh) s)"
    using map_of_release_seats [of "bookedSeats b" "occupiedSeats sh"]
    by (simp add: release_seats_filter)
  show ?thesis
    unfolding run using m
    by (simp add: ws findById_def save_def findByIdAndDelete_def
        AList.update_conv' AList.delete_conv')
qed

theorem check_payment_unpaid_releases_seats_witness:
  "findById (Booking db_example) ''b1'' =
     Some \<lparr>user_ref = ''u1'', show_ref = ''s1'', amount = 300,
           bookedSeats = [''A1'', ''A2''], isPaid = False\<rparr> \<and>
   findById (Show db_example) ''s1'' =
     Some \<lparr>movie = ''m1'', showTime = 28800000,
           occupiedSeats = [(''A1'', ''u1''), (''A2'', ''u1''), (''B1'', ''u2''), (''C1'', ''u9'')]\<rparr> \<and>
   fst (check_payment_status db_example ''b1'') = Returned () \<and>
   findById (Show (run_check_payment_status db_example ''b1'')) ''s1'' =
     Some \<lparr>movie = ''m1'', showTime = 28800000,
           occupiedSeats = [(''B1'', ''u2''), (''C1'', ''u9'')]\<rparr> \<and>
   findById (Booking (run_check_payment_status db_example ''b1'')) ''b1'' = None"
proof -
  let ?b = "\<lparr>user_ref = ''u1'', show_ref = ''s1'', amount = 300,
           bookedSeats = [''A1'', ''A2''], isPaid = False\<rparr>"
  let ?sh = "\<lparr>movie = ''m1'', showTime = 28800000,
           occupiedSeats = [(''A1'', ''u1''), (''A2'', ''u1''), (''B1'', ''u2''), (''C1'', ''u9'')]\<rparr>"
  have h1: "findById (Booking db_example) ''b1'' = Some ?b"
    by (simp add: db_example_def findById_def)
  have h2: "\<not> isPaid ?b" by simp
  have h3: "findById (Show db_example) (show_ref ?b) = Some ?sh"
    by (simp add: db_example_def findById_def)
  show ?thesis
    using h1 h3 check_payment_unpaid_releases_seats [OF h1 h2 h3] by simp
qed

text \<open>
  Claim C4. For a booking with \<open>isPaid = True\<close> the step returns normally and issues
  no write: the booking, the show it refers to and the rest of the database are
  unchanged.
\<close>

theorem check_payment_paid_unchanged:
  assumes "findById (Booking d) bookingId = Some b" and "isPaid b"
  shows "check_payment_status d bookingId = (Returned (), []) \<and>
         run_check_payment_status d bookingId = d"
  using assms
  by (simp add: check_payment_status_def run_check_payment_status_def apply_writes_def)

theorem check_payment_paid_unchanged_witness:
  "findById (Booking db_example) ''b2'' =
     Some \<lparr>user_ref = ''u2'', show_ref = ''s1'', amount = 150,
           bookedSeats = [''B1''], isPaid = True\<rparr> \<and>
   check_payment_status db_example ''b2'' = (Returned (), []) \<and>
   run_check_payment_status db_example ''b2'' = db_example"
proof -
  let ?b = "\<lparr>user_ref = ''u2'', show_ref = ''s1'', amount = 150,
           bookedSeats = [''B1''], isPaid = True\<rparr>"
  have h1: "findById (Booking db_example) ''b2'' = Some ?b"
    by (simp add: db_example_def findById_def)
  have h2: "isPaid ?b" by simp
  show ?thesis
    using h1 check_payment_paid_unchanged [OF h1 h2] by simp
qed

subsection \<open>The reminder sweep\<close>

lemma set_Set_add_all: "set (Set_add_all seen xs) = set seen \<union> set xs"
  by (induction xs arbitrary: seen) auto

lemma set_new_Set: "set (new_Set xs) = set xs"
  by (simp add: new_Set_def set_Set_add_all)

lemma new_Set_empty_iff: "new_Set xs = [] \<longleftrightarrow> xs = []"
  using set_new_Set [of xs] by (metis set_empty)

lemma User_find_in_new_Set:
  "User_find_in (new_Set (Object_values obj)) us = filter (\<lambda>(i, u). i \<in> snd ` set obj) us"
  by (simp add: User_find_in_def set_new_Set Object_values_def)

lemma prepare_loop_eq:
  "prepare_loop us shs tasks = tasks @ concat (map (show_tasks us) shs)"
proof (induction us shs tasks rule: prepare_loop.induct)
  case (1 us tasks)
  show ?case by simp
next
  case (2 us sh rest tasks)
  then show ?case by (simp add: show_tasks_def)
next
  case (3 us sh mv rest tasks)
  show ?case
  proof (cases "occupiedSeats sh = []")
    case True
    then have "length (new_Set (Object_values (occupiedSeats sh))) = 0"
      by (simp add: new_Set_def Object_values_def)
    with 3 True show ?thesis by (simp add: show_tasks_def)
  next
    case False
    then have "length (new_Set (Object_values (occupiedSeats sh))) \<noteq> 0"
      by (simp add: new_Set_empty_iff Object_values_def)
    with 3 show ?thesis
      by (simp add: show_tasks_def User_find_in_new_Set)
  qed
qed

lemma prepare_reminder_tasks_eq:
  "prepare_reminder_tasks d now = concat (map (show_tasks (User d)) (Show_find_window d now))"
  by (simp add: prepare_reminder_tasks_def prepare_loop_eq)

lemma length_filter_keys:
  assumes "distinct (map fst us)"
  shows "length (filter (\<lambda>(i, u). i \<in> H) us) = card (H \<inter> fst ` set us)"
proof -
  have "length (filter (\<lambda>(i, u). i \<in> H) us) = length (filter (\<lambda>i. i \<in> H) (map fst us))"
    by (induction us) auto
  also have "\<dots> = card ({i. i \<in> H} \<inter> set (map fst us))"
    using assms by (rule distinct_length_filter)
  finally show ?thesis by simp
qed

lemma length_show_tasks:
  "length (show_tasks us (sh, m)) =
     (case m of None \<Rightarrow> 0
      | Some mv \<Rightarrow> length (filter (\<lambda>(i, u). i \<in> snd ` set (occupiedSeats sh)) us))"
  by (simp add: show_tasks_def split: option.splits)

lemma length_concat_sum: "length (concat xss) = sum_list (map length xss)"
  by (induction xss) auto

lemma results_nth:
  assumes "i < length tasks"
  shows "snd (send_all_reminders sendEmail tpl tasks) ! i = sendEmail i (reminder_mail tpl (tasks ! i))"
  using assms by (simp add: send_all_reminders_def Let_def nth_enumerate_eq)

lemma results_length: "length (snd (send_all_reminders sendEmail tpl tasks)) = length tasks"
  by (simp add: send_all_reminders_def Let_def)

lemma settled_cases: "(r \<noteq> Fulfilled) = (r = Rejected)"
  by (cases r) auto

lemma count_rejected:
  assumes "\<exists>!i. i < length tasks \<and> sendEmail i (reminder_mail tpl (tasks ! i)) = Rejected"
  shows "length (filter (\<lambda>r. r = Rejected) (snd (send_all_reminders sendEmail tpl tasks))) = 1"
proof -
  let ?rs = "snd (send_all_reminders sendEmail tpl tasks)"
  from assms obtain i0 where i0: "i0 < length tasks" "sendEmail i0 (reminder_mail tpl (tasks ! i0)) = Rejected"
    and uniq: "\<And>j. j < length tasks \<Longrightarrow> sendEmail j (reminder_mail tpl (tasks ! j)) = Rejected \<Longrightarrow> j = i0"
    by blast
  have "(i < length ?rs \<and> ?rs ! i = Rejected) = (i = i0)" for i
  proof
    assume a: "i < length ?rs \<and> ?rs ! i = Rejected"
    then have b: "i < length tasks" by (simp add: results_length)
    with a have "sendEmail i (reminder_mail tpl (tasks ! i)) = Rejected"
      by (simp add: results_nth)
    with b show "i = i0" by (rule uniq)
  next
    assume "i = i0"
    with i0 show "i < length ?rs \<and> ?rs ! i = Rejected"
      by (simp add: results_length results_nth)
  qed
  then have "{i. i < length ?rs \<and> ?rs ! i = Rejected} = {i0}"
    by simp
  then show ?thesis
    by (simp only: length_filter_conv_card card.empty card_insert_if finite.emptyI empty_iff if_False One_nat_def)
qed

lemma count_fulfilled:
  "length (filter (\<lambda>r. r = Fulfilled) rs) + length (filter (\<lambda>r. r = Rejected) rs) = length rs"
  using sum_length_filter_compl [of "\<lambda>r. r = Fulfilled" rs]
  by (simp add: settled_cases)

lemma prepare_example_0:
  "prepare_reminder_tasks db_example 0 =
     [\<lparr>userEmail = ''ann@x.io'', userName = ''Ann Lee'', movieTitle = ''Up'', task_showTime = 28800000\<rparr>,
      \<lparr>userEmail = ''bob@x.io'', userName = ''Bob Roy'', movieTitle = ''Up'', task_showTime = 28800000\<rparr>]"
  by (simp add: prepare_reminder_tasks_def Show_find_window_def db_example_def windowStart_def
      in8Hours_def findById_def new_Set_def Object_values_def User_find_in_def)

lemma prepare_example_late: "prepare_reminder_tasks db_example 100000000 = []"
  by (simp add: prepare_reminder_tasks_def Show_find_window_def db_example_def windowStart_def
      in8Hours_def)

text \<open>
  Claim C5. When the prepare step yields \<open>N \<ge> 1\<close> tasks and exactly one of the
  \<open>N\<close> sends is rejected, the sweep hands a mail for every one of the \<open>N\<close> tasks to
  the transport, in order, and returns \<open>sent = N - 1\<close> and \<open>failed = 1\<close>.
\<close>

theorem sendShowReminders_one_failure:
  assumes "1 \<le> length (prepare_reminder_tasks d now)"
    and "\<exists>!i. i < length (prepare_reminder_tasks d now) \<and>
           sendEmail i (reminder_mail tpl (prepare_reminder_tasks d now ! i)) = Rejected"
  shows "snd (sendShowReminders d now sendEmail tpl) =
           map (reminder_mail tpl) (prepare_reminder_tasks d now) \<and>
         length (snd (sendShowReminders d now sendEmail tpl)) =
           length (prepare_reminder_tasks d now) \<and>
         sent (fst (sendShowReminders d now sendEmail tpl)) =
           length (prepare_reminder_tasks d now) - 1 \<and>
         failed (fst (sendShowReminders d now sendEmail tpl)) = Some 1"
proof -
  define tasks where "tasks = prepare_reminder_tasks d now"
  note assms = tasks_def [symmetric] assms [folded tasks_def]
  let ?rs = "snd (send_all_reminders sendEmail tpl tasks)"
  have rej: "length (filter (\<lambda>r. r = Rejected) ?rs) = 1"
    using assms(3) by (rule count_rejected)
  have ful: "length (filter (\<lambda>r. r = Fulfilled) ?rs) = length tasks - 1"
    using count_fulfilled [of ?rs] rej by (simp add: results_length)
  have fst_send: "fst (send_all_reminders sendEmail tpl tasks) = map (reminder_mail tpl) tasks"
    by (simp add: send_all_reminders_def Let_def)
  have ne: "tasks \<noteq> []" using assms(2) by auto
  have "sendShowReminders d now sendEmail tpl =
      (\<lparr>sent = length tasks - 1, failed = Some (length ?rs - (length tasks - 1)),
        message = ''Sent '' @ decimal (length tasks - 1) @ '' reminders, '' @
                  decimal (length ?rs - (length tasks - 1)) @ '' failed.''\<rparr>,
       map (reminder_mail tpl) tasks)"
    unfolding sendShowReminders_def assms(1) Let_def split_beta fst_send ful
    using ne by simp
  then show ?thesis
    unfolding tasks_def [symmetric] using assms(2) by (simp add: results_length)
qed

theorem sendShowReminders_one_failure_witness:
  "1 \<le> length (prepare_reminder_tasks db_example 0) \<and>
   (\<exists>!i. i < length (prepare_reminder_tasks db_example 0) \<and>
      second_send_fails i (reminder_mail name_only (prepare_reminder_tasks db_example 0 ! i)) = Rejected) \<and>
   length (snd (sendShowReminders db_example 0 second_send_fails name_only)) = 2 \<and>
   sent (fst (sendShowReminders db_example 0 second_send_fails name_only)) = 1 \<and>
   failed (fst (sendShowReminders db_example 0 second_send_fails name_only)) = Some 1"
proof -
  let ?tasks = "prepare_reminder_tasks db_example 0"
  have len: "length ?tasks = 2" by (simp add: prepare_example_0)
  have h2: "1 \<le> length ?tasks" using len by simp
  have h3: "\<exists>!i. i < length ?tasks \<and>
      second_send_fails i (reminder_mail name_only (?tasks ! i)) = Rejected"
  proof (rule ex1I [of _ 1])
    show "1 < length ?tasks \<and> second_send_fails 1 (reminder_mail name_only (?tasks ! 1)) = Rejected"
      using len by (simp add: second_send_fails_def)
  next
    fix i
    assume "i < length ?tasks \<and> second_send_fails i (reminder_mail name_only (?tasks ! i)) = Rejected"
    then show "i = 1" by (simp add: second_send_fails_def split: if_splits)
  qed
  show ?thesis
    using h2 h3 sendShowReminders_one_failure [of db_example 0 second_send_fails name_only, OF h2 h3] len by simp
qed

text \<open>
  Claim C6, as amended. When the prepare step yields no task, the sweep returns
  \<open>sent = 0\<close> and the message \<open>No reminders to send\<close>, with no failed count, and
  hands nothing to the transport. When it yields at least one task, the summary has a
  sent count and a failed count, which add up to the number of tasks, and every task
  is handed to the transport.
\<close>

theorem sendShowReminders_summary:
  "(prepare_reminder_tasks d now = [] \<longrightarrow>
      sendShowReminders d now sendEmail tpl =
        (\<lparr>sent = 0, failed = None, message = ''No reminders to send''\<rparr>, [])) \<and>
   (prepare_reminder_tasks d now \<noteq> [] \<longrightarrow>
      (\<exists>n. failed (fst (sendShowReminders d now sendEmail tpl)) = Some n \<and>
           sent (fst (sendShowReminders d now sendEmail tpl)) + n =
             length (prepare_reminder_tasks d now)) \<and>
      snd (sendShowReminders d now sendEmail tpl) =
        map (reminder_mail tpl) (prepare_reminder_tasks d now))"
proof (intro conjI impI)
  assume "prepare_reminder_tasks d now = []"
  then show "sendShowReminders d now sendEmail tpl =
        (\<lparr>sent = 0, failed = None, message = ''No reminders to send''\<rparr>, [])"
    by (simp add: sendShowReminders_def)
next
  assume ne: "prepare_reminder_tasks d now \<noteq> []"
  let ?tasks = "prepare_reminder_tasks d now"
  let ?rs = "snd (send_all_reminders sendEmail tpl ?tasks)"
  let ?s = "length (filter (\<lambda>r. r = Fulfilled) ?rs)"
  have le: "?s \<le> length ?tasks"
    using length_filter_le [of "\<lambda>r. r = Fulfilled" ?rs] by (simp add: results_length)
  have f: "failed (fst (sendShowReminders d now sendEmail tpl)) = Some (length ?tasks - ?s)"
    using ne by (simp add: sendShowReminders_def Let_def split_beta results_length)
  have s: "sent (fst (sendShowReminders d now sendEmail tpl)) = ?s"
    using ne by (simp add: sendShowReminders_def Let_def split_beta)
  show "\<exists>n. failed (fst (sendShowReminders d now sendEmail tpl)) = Some n \<and>
           sent (fst (sendShowReminders d now sendEmail tpl)) + n = length ?tasks"
    using f s le by simp
  show "snd (sendShowReminders d now sendEmail tpl) = map (reminder_mail tpl) ?tasks"
    using ne by (simp add: sendShowReminders_def Let_def split_beta send_all_reminders_def)
qed

theorem sendShowReminders_summary_witness:
  "prepare_reminder_tasks db_example 100000000 = [] \<and>
   sendShowReminders db_example 100000000 second_send_fails name_only =
     (\<lparr>sent = 0, failed = None, message = ''No reminders to send''\<rparr>, []) \<and>
   prepare_reminder_tasks db_example 0 \<noteq> [] \<and>
   (\<exists>n. failed (fst (sendShowReminders db_example 0 second_send_fails name_only)) = Some n \<and>
        sent (fst (sendShowReminders db_example 0 second_send_fails name_only)) + n = 2)"
proof -
  have h1: "prepare_reminder_tasks db_example 100000000 = []" by (rule prepare_example_late)
  have h2: "prepare_reminder_tasks db_example 0 \<noteq> []" by (simp add: prepare_example_0)
  have len: "length (prepare_reminder_tasks db_example 0) = 2" by (simp add: prepare_example_0)
  show ?thesis
    using h1 h2 len
      sendShowReminders_summary [of db_example 100000000 second_send_fails name_only]
      sendShowReminders_summary [of db_example 0 second_send_fails name_only]
    by simp
qed

text \<open>
  Claim C6 as stated (the summary always contains a failed count) fails on the example
  database at a time whose window holds no show.
\<close>

theorem sendShowReminders_no_failed_count:
  "prepare_reminder_tasks db_example 100000000 = [] \<and>
   failed (fst (sendShowReminders db_example 100000000 second_send_fails name_only)) = None"
  by (simp add: sendShowReminders_def prepare_example_late)

text \<open>
  Claim C10. The prepare step builds its tasks from exactly the triples of a show in
  the window whose movie resolves, a user document, and a seat of that show held by
  that user's id: an identity in \<open>occupiedSeats\<close> that has no user document
  contributes no task, and the step has no error to raise for it. Each show contributes
  one task for each user document whose id holds one of its seats; as the ids of
  documents are distinct, that is one task for each seat-holding identity that
  resolves.
\<close>

theorem prepare_reminder_tasks_resolved_users:
  "set (prepare_reminder_tasks d now) =
     {\<lparr>userEmail = email u, userName = name u, movieTitle = title mv, task_showTime = showTime sh\<rparr>
      | sh mv i u.
        (sh, Some mv) \<in> set (Show_find_window d now) \<and> (i, u) \<in> set (User d) \<and>
        i \<in> snd ` set (occupiedSeats sh)} \<and>
   length (prepare_reminder_tasks d now) =
     (\<Sum>(sh, m)\<leftarrow>Show_find_window d now.
        case m of None \<Rightarrow> 0
        | Some mv \<Rightarrow> length (filter (\<lambda>(i, u). i \<in> snd ` set (occupiedSeats sh)) (User d))) \<and>
   (distinct (map fst (User d)) \<longrightarrow>
      length (prepare_reminder_tasks d now) =
        (\<Sum>(sh, m)\<leftarrow>Show_find_window d now.
           case m of None \<Rightarrow> 0
           | Some mv \<Rightarrow> card (snd ` set (occupiedSeats sh) \<inter> fst ` set (User d))))"
proof (intro conjI impI)
  show "set (prepare_reminder_tasks d now) =
     {\<lparr>userEmail = email u, userName = name u, movieTitle = title mv, task_showTime = showTime sh\<rparr>
      | sh mv i u.
        (sh, Some mv) \<in> set (Show_find_window d now) \<and> (i, u) \<in> set (User d) \<and>
        i \<in> snd ` set (occupiedSeats sh)}"
    unfolding prepare_reminder_tasks_eq
  proof (intro set_eqI iffI)
    fix t
    assume "t \<in> set (concat (map (show_tasks (User d)) (Show_find_window d now)))"
    then obtain p where p: "p \<in> set (Show_find_window d now)" "t \<in> set (show_tasks (User d) p)"
      by auto
    obtain sh m where pm: "p = (sh, m)" by (cases p)
    from p(2) pm obtain mv where mv: "m = Some mv" by (cases m) (auto simp: show_tasks_def)
    from p(2) pm mv obtain i u where
      "(i, u) \<in> set (User d)" "i \<in> snd ` set (occupiedSeats sh)"
      "t = \<lparr>userEmail = email u, userName = name u, movieTitle = title mv, task_showTime = showTime sh\<rparr>"
      by (auto simp: show_tasks_def)
    with p(1) pm mv show "t \<in> {\<lparr>userEmail = email u, userName = name u, movieTitle = title mv, task_showTime = showTime sh\<rparr>
      | sh mv i u.
        (sh, Some mv) \<in> set (Show_find_window d now) \<and> (i, u) \<in> set (User d) \<and>
        i \<in> snd ` set (occupiedSeats sh)}"
      by blast
  next
    fix t
    assume "t \<in> {\<lparr>userEmail = email u, userName = name u, movieTitle = title mv, task_showTime = showTime sh\<rparr>
      | sh mv i u.
        (sh, Some mv) \<in> set (Show_find_window d now) \<and> (i, u) \<in> set (User d) \<and>
        i \<in> snd ` set (occupiedSeats sh)}"
    then obtain sh mv i u where a: "(sh, Some mv) \<in> set (Show_find_window d now)"
      "(i, u) \<in> set (User d)" "i \<in> snd ` set (occupiedSeats sh)"
      "t = \<lparr>userEmail = email u, userName = name u, movieTitle = title mv, task_showTime = showTime sh\<rparr>"
      by blast
    from a(2,3,4) have "t \<in> set (show_tasks (User d) (sh, Some mv))"
      by (force simp: show_tasks_def)
    with a(1) show "t \<in> set (concat (map (show_tasks (User d)) (Show_find_window d now)))"
      by auto
  qed
next
  have "length (show_tasks (User d) p) =
      (case p of (sh, m) \<Rightarrow> case m of None \<Rightarrow> 0
        | Some mv \<Rightarrow> length (filter (\<lambda>(i, u). i \<in> snd ` set (occupiedSeats sh)) (User d)))" for p
    by (cases p) (simp add: length_show_tasks)
  then show len: "length (prepare_reminder_tasks d now) =
     (\<Sum>(sh, m)\<leftarrow>Show_find_window d now.
        case m of None \<Rightarrow> 0
        | Some mv \<Rightarrow> length (filter (\<lambda>(i, u). i \<in> snd ` set (occupiedSeats sh)) (User d)))"
    by (simp add: prepare_reminder_tasks_eq length_concat_sum comp_def)
  assume dist: "distinct (map fst (User d))"
  show "length (prepare_reminder_tasks d now) =
        (\<Sum>(sh, m)\<leftarrow>Show_find_window d now.
           case m of None \<Rightarrow> 0
           | Some mv \<Rightarrow> card (snd ` set (occupiedSeats sh) \<inter> fst ` set (User d)))"
    unfolding len by (simp add: length_filter_keys [OF dist] cong: option.case_cong)
qed

theorem prepare_reminder_tasks_resolved_users_witness:
  "distinct (map fst (User db_example)) \<and>
   length (prepare_reminder_tasks db_example 0) =
     (\<Sum>(sh, m)\<leftarrow>Show_find_window db_example 0.
        case m of None \<Rightarrow> 0
        | Some mv \<Rightarrow> card (snd ` set (occupiedSeats sh) \<inter> fst ` set (User db_example))) \<and>
   length (prepare_reminder_tasks db_example 0) = 2"
proof -
  have h: "distinct (map fst (User db_example))" by (simp add: db_example_def)
  have len: "length (prepare_reminder_tasks db_example 0) = 2" by (simp add: prepare_example_0)
  show ?thesis
    using h len prepare_reminder_tasks_resolved_users [of db_example 0] by simp
qed

subsection \<open>The favourites toggle\<close>

lemma stored_after_toggle:
  assumes "c userId = Some md"
  shows "stored_favorites (snd (updateFavourite c userId movieId)) userId =
     (if movieId \<notin> set (stored_favorites c userId)
      then stored_favorites c userId @ [movieId]
      else filter (\<lambda>item. item \<noteq> movieId) (stored_favorites c userId))"
  using assms by (simp add: updateFavourite_def stored_favorites_def Let_def split: option.splits)

lemma user_kept:
  assumes "c userId = Some md"
  shows "\<exists>md'. snd (updateFavourite c userId movieId) userId = Some md'"
  using assms by (simp add: updateFavourite_def Let_def)

lemma count_list_filter_neq: "count_list (filter (\<lambda>item. item \<noteq> m) xs) x = (if x = m then 0 else count_list xs x)"
  by (induction xs) auto

text \<open>
  Claim C7. For a caller whose metadata the provider holds, with any stored list and any
  \<open>movieId\<close>: if \<open>movieId\<close> is absent, one call appends it, so that it occurs exactly
  once, and a second call gives back the original list; if it is present, one call
  removes it. After one call \<open>movieId\<close> occurs at most once, and the occurrences of
  every other id are as before. After two calls the list has the same members as at the
  start, and it is free of duplicates if the original list was.
\<close>

theorem updateFavourite_toggle:
  assumes "c userId = Some md"
  shows
    "(movieId \<notin> set (stored_favorites c userId) \<longrightarrow>
        stored_favorites (snd (updateFavourite c userId movieId)) userId =
          stored_favorites c userId @ [movieId] \<and>
        count_list (stored_favorites (snd (updateFavourite c userId movieId)) userId) movieId = 1 \<and>
        stored_favorites
          (snd (updateFavourite (snd (updateFavourite c userId movieId)) userId movieId)) userId =
          stored_favorites c userId) \<and>
     (movieId \<in> set (stored_favorites c userId) \<longrightarrow>
        stored_favorites (snd (updateFavourite c userId movieId)) userId =
          filter (\<lambda>item. item \<noteq> movieId) (stored_favorites c userId) \<and>
        movieId \<notin> set (stored_favorites (snd (updateFavourite c userId movieId)) userId)) \<and>
     count_list (stored_favorites (snd (updateFavourite c userId movieId)) userId) movieId \<le> 1 \<and>
     (\<forall>x. x \<noteq> movieId \<longrightarrow>
        count_list (stored_favorites (snd (updateFavourite c userId movieId)) userId) x =
        count_list (stored_favorites c userId) x) \<and>
     set (stored_favorites
            (snd (updateFavourite (snd (updateFavourite c userId movieId)) userId movieId)) userId) =
       set (stored_favorites c userId) \<and>
     (distinct (stored_favorites c userId) \<longrightarrow>
        distinct (stored_favorites
          (snd (updateFavourite (snd (updateFavourite c userId movieId)) userId movieId)) userId))"
proof -
  let ?favs = "stored_favorites c userId"
  let ?c1 = "snd (updateFavourite c userId movieId)"
  let ?c2 = "snd (updateFavourite ?c1 userId movieId)"
  obtain md' where md': "?c1 userId = Some md'"
    using user_kept [of c userId md movieId, OF assms] by blast
  have s1: "stored_favorites ?c1 userId =
      (if movieId \<notin> set ?favs then ?favs @ [movieId] else filter (\<lambda>item. item \<noteq> movieId) ?favs)"
    by (rule stored_after_toggle [of c userId md movieId, OF assms])
  have s2: "stored_favorites ?c2 userId =
      (if movieId \<notin> set ?favs then ?favs else filter (\<lambda>item. item \<noteq> movieId) ?favs @ [movieId])"
  proof (cases "movieId \<in> set ?favs")
    case True
    then show ?thesis
      using stored_after_toggle [of ?c1 userId md' movieId, OF md'] s1 by simp
  next
    case False
    then have "filter (\<lambda>item. item \<noteq> movieId) ?favs = ?favs"
      by (auto simp: filter_id_conv)
    with False show ?thesis
      using stored_after_toggle [of ?c1 userId md' movieId, OF md'] s1 by simp
  qed
  have a: "count_list (stored_favorites ?c1 userId) movieId \<le> 1"
    unfolding s1 by (simp add: count_list_filter_neq count_list_0_iff)
  have b: "\<forall>x. x \<noteq> movieId \<longrightarrow> count_list (stored_favorites ?c1 userId) x = count_list ?favs x"
    unfolding s1 by (simp add: count_list_filter_neq)
  have c: "set (stored_favorites ?c2 userId) = set ?favs"
    unfolding s2 by auto
  have d: "distinct ?favs \<longrightarrow> distinct (stored_favorites ?c2 userId)"
    unfolding s2 by simp
  have e: "movieId \<notin> set ?favs \<longrightarrow> count_list (stored_favorites ?c1 userId) movieId = 1"
    unfolding s1 by (simp add: count_list_0_iff)
  show ?thesis
    using a b c d e unfolding s1 s2 by simp
qed

theorem updateFavourite_toggle_witness:
  "clerk_example ''u1'' = Some \<lparr>favorites = Some [''m1'', ''m2'']\<rparr> \<and>
   ''m3'' \<notin> set (stored_favorites clerk_example ''u1'') \<and>
   stored_favorites (snd (updateFavourite clerk_example ''u1'' ''m3'')) ''u1'' = [''m1'', ''m2'', ''m3''] \<and>
   ''m1'' \<in> set (stored_favorites clerk_example ''u1'') \<and>
   stored_favorites (snd (updateFavourite clerk_example ''u1'' ''m1'')) ''u1'' = [''m2''] \<and>
   distinct (stored_favorites clerk_example ''u1'') \<and>
   distinct (stored_favorites
      (snd (updateFavourite (snd (updateFavourite clerk_example ''u1'' ''m1'')) ''u1'' ''m1'')) ''u1'')"
proof -
  have h: "clerk_example ''u1'' = Some \<lparr>favorites = Some [''m1'', ''m2'']\<rparr>"
    by (simp add: clerk_example_def)
  have st: "stored_favorites clerk_example ''u1'' = [''m1'', ''m2'']"
    by (simp add: stored_favorites_def h)
  show ?thesis
    using h st
      updateFavourite_toggle [of clerk_example "''u1''" "\<lparr>favorites = Some [''m1'', ''m2'']\<rparr>" "''m3''", OF h]
      updateFavourite_toggle [of clerk_example "''u1''" "\<lparr>favorites = Some [''m1'', ''m2'']\<rparr>" "''m1''", OF h]
    by simp
qed

text \<open>
  Claim C9. For a caller whose metadata has no \<open>favorites\<close> property, one call with
  \<open>movieId\<close> stores exactly the list \<open>[movieId]\<close> and answers with
  \<open>success = True\<close>.
\<close>

theorem updateFavourite_initialises:
  assumes "c userId = Some md" and "favorites md = None"
  shows "updateFavourite c userId movieId =
     (\<lparr>success = True, res_message = Literal ''Favourite movies updated successfully''\<rparr>,
      c(userId \<mapsto> md\<lparr>favorites := Some [movieId]\<rparr>))"
  using assms by (simp add: updateFavourite_def)

theorem updateFavourite_initialises_witness:
  "clerk_example ''u2'' = Some \<lparr>favorites = None\<rparr> \<and>
   favorites \<lparr>favorites = None\<rparr> = None \<and>
   success (fst (updateFavourite clerk_example ''u2'' ''m7'')) \<and>
   snd (updateFavourite clerk_example ''u2'' ''m7'') ''u2'' = Some \<lparr>favorites = Some [''m7'']\<rparr>"
proof -
  have h1: "clerk_example ''u2'' = Some \<lparr>favorites = None\<rparr>"
    by (simp add: clerk_example_def)
  have h2: "favorites \<lparr>favorites = None\<rparr> = None" by simp
  show ?thesis
    using h1 updateFavourite_initialises [of clerk_example "''u2''" "\<lparr>favorites = None\<rparr>" "''m7''", OF h1 h2] by simp
qed

subsection \<open>The user-update handler\<close>

lemma findByIdAndUpdate_absent:
  "findById c i = None \<Longrightarrow> findByIdAndUpdate i f c = c"
  by (simp add: findById_def findByIdAndUpdate_def)

text \<open>
  Claim C8, as amended. When the id of the event matches no user document, the handler
  leaves the database unchanged, whatever the payload: nothing is inserted and nothing
  is modified. It returns normally when the payload carries at least one email address;
  with an empty \<open>email_addresses\<close> list it throws a TypeError, before the database is
  reached.
\<close>

theorem syncUserUpdation_absent_id:
  assumes "findById (User d) (clerk_id ev) = None"
  shows "run_syncUserUpdation d ev = d \<and>
         (email_addresses ev \<noteq> [] \<longrightarrow> fst (syncUserUpdation ev) = Returned ()) \<and>
         (email_addresses ev = [] \<longrightarrow> syncUserUpdation ev = (Threw TypeError, []))"
  using assms
  by (cases "email_addresses ev")
    (simp_all add: run_syncUserUpdation_def syncUserUpdation_def apply_writes_def
      findByIdAndUpdate_absent)

theorem syncUserUpdation_absent_id_witness:
  "findById (User db_example) (clerk_id event_with_email) = None \<and>
   email_addresses event_with_email \<noteq> [] \<and>
   fst (syncUserUpdation event_with_email) = Returned () \<and>
   run_syncUserUpdation db_example event_with_email = db_example \<and>
   findById (User db_example) (clerk_id event_no_email) = None \<and>
   email_addresses event_no_email = [] \<and>
   syncUserUpdation event_no_email = (Threw TypeError, []) \<and>
   run_syncUserUpdation db_example event_no_email = db_example"
proof -
  have h1: "findById (User db_example) (clerk_id event_with_email) = None"
    by (simp add: db_example_def event_with_email_def findById_def)
  have h2: "findById (User db_example) (clerk_id event_no_email) = None"
    by (simp add: db_example_def event_no_email_def findById_def)
  have e1: "email_addresses event_with_email \<noteq> []" by (simp add: event_with_email_def)
  have e2: "email_addresses event_no_email = []" by (simp add: event_no_email_def)
  show ?thesis
    using h1 h2 e1 e2 syncUserUpdation_absent_id [OF h1] syncUserUpdation_absent_id [OF h2] by simp
qed

text \<open>
  Claim C8 as stated (the handler succeeds without throwing for every absent id) fails
  for a payload whose list of email addresses is empty.
\<close>

theorem syncUserUpdation_absent_id_throws:
  "\<not> (findById (User db_example) (clerk_id event_no_email) = None \<longrightarrow>
        fst (syncUserUpdation event_no_email) = Returned () \<and>
        User (run_syncUserUpdation db_example event_no_email) = User db_example)"
  by (simp add: db_example_def event_no_email_def findById_def syncUserUpdation_def)

end
